theory Spec2Isabelle
  imports Complex_Main
begin

section \<open>Numbers\<close>

text \<open>
  The angle kernel (\<open>src/lib/angles.js\<close>) computes on JavaScript numbers, which are IEEE
  doubles. They are modelled as real numbers, and \<open>Math.PI\<close> is \<open>pi\<close>. The comparisons, the
  remainder \<open>%\<close>, \<open>Math.abs\<close> and \<open>Math.round\<close> are exact on doubles and exact here. A
  sum, a difference, a product or a quotient of doubles is rounded to the nearest double:
  the two wrap functions, where a rounded result can cross the boundary of the range,
  round every such step with \<open>rnd\<close>; the other functions compute on the reals as they
  are. Signed zeros and the overflow to Infinity (beyond \<open>2 ^ 1024\<close>) are left out. The
  non-finite values (NaN and the infinities) only matter to the bar layout, which has its
  own number type further down and hands finite values to the kernel.
\<close>

text \<open>The operator \<open>%\<close>: the remainder of the division truncated towards zero, so the
  result has the sign of the dividend. It is only ever used with the divisor 360.\<close>

definition trunc :: "real \<Rightarrow> int" where
  "trunc x = (if 0 \<le> x then \<lfloor>x\<rfloor> else - \<lfloor>- x\<rfloor>)"

definition js_rem :: "real \<Rightarrow> real \<Rightarrow> real" where
  "js_rem x y = x - y * of_int (trunc (x / y))"


text \<open>Rounding to the nearest double. A double other than zero is an integer multiple of
  its unit in the last place, \<open>2 ^ (e - 52)\<close> for the binary exponent \<open>e\<close> of the number, and
  the exponent is no less than \<open>-1022\<close> (below it the doubles are subnormal, multiples of
  \<open>2 ^ (-1074)\<close>). A real number rounds to the nearest multiple of the unit of its own
  exponent; of two nearest multiples the even one is taken.\<close>

definition expo :: "real \<Rightarrow> int" where
  "expo x = max \<lfloor>log 2 \<bar>x\<bar>\<rfloor> (- 1022)"

definition ulp :: "real \<Rightarrow> real" where
  "ulp x = 2 powr of_int (expo x - 52)"

definition round_even :: "real \<Rightarrow> int" where
  "round_even r =
     (let f = \<lfloor>r\<rfloor>
      in if r - of_int f < 1 / 2 then f
         else if 1 / 2 < r - of_int f then f + 1
         else if even f then f else f + 1)"

definition rnd :: "real \<Rightarrow> real" where
  "rnd x = (if x = 0 then 0 else of_int (round_even (x / ulp x)) * ulp x)"

text \<open>\<open>Math.atan2(y, x)\<close>, the angle of the point \<open>(x, y)\<close> in \<open>(-pi, pi]\<close>.\<close>

definition Math_atan2 :: "real \<Rightarrow> real \<Rightarrow> real" where
  "Math_atan2 y x =
     (if 0 < x then arctan (y / x)
      else if x < 0 \<and> 0 \<le> y then arctan (y / x) + pi
      else if x < 0 then arctan (y / x) - pi
      else if 0 < y then pi / 2
      else if y < 0 then - (pi / 2)
      else 0)"

section \<open>The angle kernel\<close>

definition deg2rad :: "real \<Rightarrow> real" where
  "deg2rad deg = deg / 180 * pi"

definition rad2deg :: "real \<Rightarrow> real" where
  "rad2deg rad = rad / pi * 180"

text \<open>In \<open>wrap360\<close> the remainder is exact and the sum \<open>out + 360\<close> is rounded. In \<open>wrap180\<close>
  the quotient, the product and the difference are rounded, in this order; \<open>Math.round\<close> of
  a double is exact.\<close>

definition wrap360 :: "real \<Rightarrow> real" where
  "wrap360 deg = (let out = js_rem deg 360 in if out < 0 then rnd (out + 360) else out)"


text \<open>A sector and a radial range are 2-item arrays in the source; they are pairs here,
  \<open>fst\<close> for index 0 and \<open>snd\<close> for index 1.\<close>

definition isFullCircle :: "real \<times> real \<Rightarrow> bool" where
  "isFullCircle sector = (let arc = \<bar>snd sector - fst sector\<bar> in arc = 360)"

definition angleDelta :: "real \<Rightarrow> real \<Rightarrow> real" where
  "angleDelta a b = (let d = b - a in Math_atan2 (sin d) (cos d))"

definition angleDist :: "real \<Rightarrow> real \<Rightarrow> real" where
  "angleDist a b = \<bar>angleDelta a b\<bar>"

definition isAngleInsideSector :: "real \<Rightarrow> real \<times> real \<Rightarrow> bool" where
  "isAngleInsideSector a sector =
     (if isFullCircle sector then True
      else
        let (s0, s1) =
              (if fst sector < snd sector then (fst sector, snd sector)
               else (snd sector, fst sector));
            s0 = wrap360 s0;
            s1 = wrap360 s1;
            s1 = (if s0 > s1 then s1 + 360 else s1);
            a0 = wrap360 (rad2deg a);
            a1 = a0 + 360
        in (a0 \<ge> s0 \<and> a0 \<le> s1) \<or> (a1 \<ge> s0 \<and> a1 \<le> s1))"

definition isPtInsideSector :: "real \<Rightarrow> real \<Rightarrow> real \<times> real \<Rightarrow> real \<times> real \<Rightarrow> bool" where
  "isPtInsideSector r a rRng sector =
     (if \<not> isAngleInsideSector a sector then False
      else
        let (r0, r1) =
              (if fst rRng < snd rRng then (fst rRng, snd rRng)
               else (snd rRng, fst rRng))
        in r \<ge> r0 \<and> r \<le> r1)"


section \<open>The path builders\<close>

text \<open>
  The builders concatenate strings and numbers. A number in a string context is converted
  by the language's number-to-string conversion, which is no code of this repository: it is
  the parameter \<open>str\<close> of every builder. The three arc flags are the numbers 0 and 1 in the
  source; they are natural numbers here and print as one digit. An array in a string
  context prints its items separated by commas, the item \<open>null\<close> as the empty string.
\<close>

text \<open>The inner radius of \<open>_path\<close> is \<open>null\<close> for an arc or a sector, and the centre may be
  left out: both are options. \<open>toNumber\<close> is the coercion of \<open>null\<close> in a comparison or a
  product, \<open>or0\<close> is \<open>cx || 0\<close>.\<close>

definition toNumber :: "real option \<Rightarrow> real" where
  "toNumber r = (case r of None \<Rightarrow> 0 | Some x \<Rightarrow> x)"

definition or0 :: "real option \<Rightarrow> real" where
  "or0 c = (case c of None \<Rightarrow> 0 | Some x \<Rightarrow> if x = 0 then 0 else x)"

definition item :: "(real \<Rightarrow> string) \<Rightarrow> real option \<Rightarrow> string" where
  "item str r = (case r of None \<Rightarrow> [] | Some x \<Rightarrow> str x)"

definition flag :: "nat \<Rightarrow> string" where
  "flag n = (if n = 0 then ''0'' else ''1'')"

text \<open>\<open>pt\<close> and \<open>arc\<close> are the two local functions of \<open>_path\<close>; what they capture from its
  scope (\<open>cx\<close>, \<open>cy\<close>, \<open>largeArc\<close>) is passed to them.\<close>

definition pt :: "(real \<Rightarrow> string) \<Rightarrow> real \<Rightarrow> real \<Rightarrow> real option \<Rightarrow> real \<Rightarrow> string" where
  "pt str cx cy r a =
     str (toNumber r * cos a + cx) @ '','' @ str (cy - toNumber r * sin a)"

definition largeArc :: "real \<Rightarrow> real \<Rightarrow> nat" where
  "largeArc aStart aEnd = (if \<bar>aEnd - aStart\<bar> \<le> pi then 0 else 1)"

definition arc ::
  "(real \<Rightarrow> string) \<Rightarrow> real \<Rightarrow> real \<Rightarrow> nat \<Rightarrow> real option \<Rightarrow> real \<Rightarrow> nat \<Rightarrow> string" where
  "arc str cx cy la r a cw =
     ''A'' @ (item str r @ '','' @ item str r) @ '' '' @
     (''0'' @ '','' @ flag la @ '','' @ flag cw) @ '' '' @ pt str cx cy r a"

text \<open>\<open>_path\<close> of the source (an Isabelle name cannot start with an underscore). \<open>aMid\<close> is
  assigned and read on the full-circle branch only.\<close>

definition path_common ::
  "(real \<Rightarrow> string) \<Rightarrow> real option \<Rightarrow> real option \<Rightarrow> real \<Rightarrow> real \<Rightarrow>
   real option \<Rightarrow> real option \<Rightarrow> bool \<Rightarrow> string" where
  "path_common str r0 r1 a0 a1 cx cy isClosed =
     (let cx = or0 cx;
          cy = or0 cy;
          isCircle = isFullCircle (rad2deg a0, rad2deg a1);
          aMid = pi;
          (aStart, aEnd) =
            (if isCircle then (0, 2 * pi)
             else if a0 < a1 then (a0, a1)
             else (a1, a0));
          (rStart, rEnd) =
            (if toNumber r0 < toNumber r1 then (r0, r1) else (r1, r0));
          la = largeArc aStart aEnd
      in
        if isCircle then
          (if rStart = None then
             ''M'' @ pt str cx cy rEnd aStart @
             arc str cx cy la rEnd aMid 0 @
             arc str cx cy la rEnd aEnd 0 @ ''Z''
           else
             ''M'' @ pt str cx cy rStart aStart @
             arc str cx cy la rStart aMid 0 @
             arc str cx cy la rStart aEnd 0 @ ''Z'' @
             ''M'' @ pt str cx cy rEnd aStart @
             arc str cx cy la rEnd aMid 1 @
             arc str cx cy la rEnd aEnd 1 @ ''Z'')
        else
          (if rStart = None then
             (''M'' @ pt str cx cy rEnd aStart @ arc str cx cy la rEnd aEnd 0) @
             (if isClosed then ''L0,0Z'' else [])
           else
             ''M'' @ pt str cx cy rStart aStart @
             ''L'' @ pt str cx cy rEnd aStart @
             arc str cx cy la rEnd aEnd 0 @
             ''L'' @ pt str cx cy rStart aEnd @
             arc str cx cy la rStart aStart 1 @ ''Z''))"

definition pathArc ::
  "(real \<Rightarrow> string) \<Rightarrow> real \<Rightarrow> real \<Rightarrow> real \<Rightarrow> real option \<Rightarrow> real option \<Rightarrow> string" where
  "pathArc str r a0 a1 cx cy = path_common str None (Some r) a0 a1 cx cy False"

definition pathSector ::
  "(real \<Rightarrow> string) \<Rightarrow> real \<Rightarrow> real \<Rightarrow> real \<Rightarrow> real option \<Rightarrow> real option \<Rightarrow> string" where
  "pathSector str r a0 a1 cx cy = path_common str None (Some r) a0 a1 cx cy True"

definition pathAnnulus ::
  "(real \<Rightarrow> string) \<Rightarrow> real \<Rightarrow> real \<Rightarrow> real \<Rightarrow> real \<Rightarrow> real option \<Rightarrow> real option \<Rightarrow> string" where
  "pathAnnulus str r0 r1 a0 a1 cx cy =
     path_common str (Some r0) (Some r1) a0 a1 cx cy True"


section \<open>The bar layout\<close>

text \<open>
  The layout (\<open>src/traces/barpolar/plot.js\<close>) reads values that may be NaN or infinite:
  its numbers are the reals extended by the three non-finite values. Arithmetic on finite
  values is exact; a non-finite operand follows the IEEE rules.
\<close>

datatype jsnum = Fin real | PosInf | NegInf | NaN

definition inf_of :: "real \<Rightarrow> jsnum" where
  "inf_of x = (if x = 0 then NaN else if 0 < x then PosInf else NegInf)"

fun jadd :: "jsnum \<Rightarrow> jsnum \<Rightarrow> jsnum" where
  "jadd NaN y = NaN"
| "jadd x NaN = NaN"
| "jadd (Fin x) (Fin y) = Fin (x + y)"
| "jadd PosInf NegInf = NaN"
| "jadd NegInf PosInf = NaN"
| "jadd PosInf y = PosInf"
| "jadd x PosInf = PosInf"
| "jadd NegInf y = NegInf"
| "jadd x NegInf = NegInf"

fun jmul :: "jsnum \<Rightarrow> jsnum \<Rightarrow> jsnum" where
  "jmul NaN y = NaN"
| "jmul x NaN = NaN"
| "jmul (Fin x) (Fin y) = Fin (x * y)"
| "jmul (Fin x) PosInf = inf_of x"
| "jmul (Fin x) NegInf = inf_of (- x)"
| "jmul PosInf (Fin y) = inf_of y"
| "jmul NegInf (Fin y) = inf_of (- y)"
| "jmul PosInf PosInf = PosInf"
| "jmul NegInf NegInf = PosInf"
| "jmul PosInf NegInf = NegInf"
| "jmul NegInf PosInf = NegInf"

text \<open>Division; a zero divisor counts as positive zero.\<close>

fun jdiv :: "jsnum \<Rightarrow> jsnum \<Rightarrow> jsnum" where
  "jdiv NaN y = NaN"
| "jdiv x NaN = NaN"
| "jdiv (Fin x) (Fin y) = (if y = 0 then inf_of x else Fin (x / y))"
| "jdiv (Fin x) PosInf = Fin 0"
| "jdiv (Fin x) NegInf = Fin 0"
| "jdiv PosInf (Fin y) = (if 0 \<le> y then PosInf else NegInf)"
| "jdiv NegInf (Fin y) = (if 0 \<le> y then NegInf else PosInf)"
| "jdiv x y = NaN"

fun Math_cos :: "jsnum \<Rightarrow> jsnum" where
  "Math_cos (Fin x) = Fin (cos x)"
| "Math_cos x = NaN"

fun Math_sin :: "jsnum \<Rightarrow> jsnum" where
  "Math_sin (Fin x) = Fin (sin x)"
| "Math_sin x = NaN"

text \<open>The operator \<open>===\<close> on numbers: NaN equals nothing, itself included.\<close>

definition strict_eq :: "jsnum \<Rightarrow> jsnum \<Rightarrow> bool" where
  "strict_eq x y = (x \<noteq> NaN \<and> x = y)"

text \<open>Modelled from the spec: \<open>isNumeric\<close> is the package \<open>fast-isnumeric\<close>, which is not
  under \<open>src/\<close>; the spec calls it the numeric validity predicate \<open>isFiniteNumber\<close>. On a
  number it holds exactly of the finite values.\<close>

fun isNumeric :: "jsnum \<Rightarrow> bool" where
  "isNumeric (Fin x) = True"
| "isNumeric x = False"

text \<open>The finite value handed to the path function. The layout calls the path function
  after \<open>isNumeric\<close> has held of each argument, so the second equation is never reached.\<close>

fun the_fin :: "jsnum \<Rightarrow> real" where
  "the_fin (Fin x) = x"
| "the_fin x = 0"

text \<open>A bar record \<open>di\<close>. The raw fields \<open>p\<close>, \<open>w\<close>, \<open>b\<close>, \<open>s\<close> are there before the layout; a
  derived field is \<open>None\<close> until a pass has written it. The fields carry the prefix \<open>bar_\<close>
  to keep the short names free for variables.\<close>

record bar =
  bar_p :: jsnum
  bar_w :: jsnum
  bar_b :: jsnum
  bar_s :: jsnum
  bar_p0 :: "jsnum option"
  bar_p1 :: "jsnum option"
  bar_s0 :: "jsnum option"
  bar_s1 :: "jsnum option"
  bar_rp0 :: "jsnum option"
  bar_rp1 :: "jsnum option"
  bar_thetag0 :: "jsnum option"
  bar_thetag1 :: "jsnum option"
  bar_ct :: "(jsnum \<times> jsnum) option"

text \<open>What the layout reads of the subplot: the centre, the vertex angles of a polygonal
  grid when there is one, and the projections of its axes, which belong to the axis
  objects and are parameters here.\<close>

record subplot =
  cxx :: real
  cyy :: real
  vangles :: "real list option"
  radialAxis_c2p :: "jsnum \<Rightarrow> jsnum"
  radialAxis_c2g :: "jsnum \<Rightarrow> jsnum"
  angularAxis_c2g :: "jsnum \<Rightarrow> jsnum"
  xaxis_c2p :: "jsnum \<Rightarrow> jsnum"
  yaxis_c2p :: "jsnum \<Rightarrow> jsnum"

text \<open>The two functions of \<open>plots/polar/helpers\<close> that the polygonal path function calls;
  the module is not under \<open>src/\<close> and no claim is about it, so they are parameters.\<close>

record helpers =
  findEnclosingVertexAngles :: "real \<Rightarrow> real list \<Rightarrow> real \<times> real"
  pathPolygonAnnulus ::
    "real \<Rightarrow> real \<Rightarrow> real \<times> real \<Rightarrow> real list \<Rightarrow> real \<Rightarrow> real \<Rightarrow> string"

definition makePathFn ::
  "(real \<Rightarrow> string) \<Rightarrow> helpers \<Rightarrow> subplot \<Rightarrow> real \<Rightarrow> real \<Rightarrow> real \<Rightarrow> real \<Rightarrow> string" where
  "makePathFn str hp sp =
     (case vangles sp of
        Some va \<Rightarrow>
          (\<lambda>r0 r1 a0' a1'.
             let (a0, a1) = (if angleDelta a0' a1' > 0 then (a0', a1') else (a1', a0'));
                 tip = (a0 + a1) / 2;
                 va0 = fst (findEnclosingVertexAngles hp a0 va);
                 va1 = snd (findEnclosingVertexAngles hp a1 va);
                 vaBar = [va0, tip, va1];
                 clip = (rad2deg a0, rad2deg a1)
             in pathPolygonAnnulus hp r0 r1 clip vaBar (cxx sp) (cyy sp))
      | None \<Rightarrow>
          (\<lambda>r0 r1 a0 a1.
             pathAnnulus str r0 r1 a0 a1 (Some (cxx sp)) (Some (cyy sp))))"

text \<open>The offset \<open>t.poffset\<close> is one number or an array with an entry per bar. Reading the
  array past its end gives \<open>undefined\<close>, and a number plus \<open>undefined\<close> is NaN.\<close>

datatype poffset = Scalar jsnum | PerBar "jsnum list"

definition poffset_at :: "poffset \<Rightarrow> nat \<Rightarrow> jsnum" where
  "poffset_at poffset i =
     (case poffset of
        Scalar v \<Rightarrow> v
      | PerBar vs \<Rightarrow> if i < length vs then vs ! i else NaN)"

text \<open>The body of \<open>bars.each\<close>: the bar record as the pass leaves it, and the string set
  as the attribute \<open>d\<close> of the bar's path node.\<close>

definition layout_bar ::
  "(real \<Rightarrow> real \<Rightarrow> real \<Rightarrow> real \<Rightarrow> string) \<Rightarrow> subplot \<Rightarrow> poffset \<Rightarrow> nat \<Rightarrow> bar \<Rightarrow>
   bar \<times> string" where
  "layout_bar pathFn sp poffset i di =
     (let p0 = jadd (bar_p di) (poffset_at poffset i);
          di = di\<lparr>bar_p0 := Some p0\<rparr>;
          p1 = jadd p0 (bar_w di);
          di = di\<lparr>bar_p1 := Some p1\<rparr>;
          s0 = bar_b di;
          di = di\<lparr>bar_s0 := Some s0\<rparr>;
          s1 = jadd s0 (bar_s di);
          di = di\<lparr>bar_s1 := Some s1\<rparr>;
          rp0 = radialAxis_c2p sp s0;
          di = di\<lparr>bar_rp0 := Some rp0\<rparr>;
          rp1 = radialAxis_c2p sp s1;
          di = di\<lparr>bar_rp1 := Some rp1\<rparr>;
          thetag0 = angularAxis_c2g sp p0;
          di = di\<lparr>bar_thetag0 := Some thetag0\<rparr>;
          thetag1 = angularAxis_c2g sp p1;
          di = di\<lparr>bar_thetag1 := Some thetag1\<rparr>
      in
        if \<not> isNumeric rp0 \<or> \<not> isNumeric rp1 \<or>
           \<not> isNumeric thetag0 \<or> \<not> isNumeric thetag1 \<or>
           strict_eq rp0 rp1 \<or> strict_eq thetag0 thetag1
        then (di, ''M0,0Z'')
        else
          let rg1 = radialAxis_c2g sp s1;
              thetagMid = jdiv (jadd thetag0 thetag1) (Fin 2);
              di = di\<lparr>bar_ct := Some
                     (xaxis_c2p sp (jmul rg1 (Math_cos thetagMid)),
                      yaxis_c2p sp (jmul rg1 (Math_sin thetagMid)))\<rparr>
          in (di, pathFn (the_fin rp0) (the_fin rp1) (the_fin thetag0) (the_fin thetag1)))"

text \<open>\<open>bars.each\<close> visits the bars of a trace in order, with their indices from 0.\<close>

fun layout_bars ::
  "(real \<Rightarrow> real \<Rightarrow> real \<Rightarrow> real \<Rightarrow> string) \<Rightarrow> subplot \<Rightarrow> poffset \<Rightarrow> nat \<Rightarrow> bar list \<Rightarrow>
   (bar \<times> string) list" where
  "layout_bars pathFn sp poffset i [] = []"
| "layout_bars pathFn sp poffset i (di # ds) =
     layout_bar pathFn sp poffset i di # layout_bars pathFn sp poffset (Suc i) ds"

text \<open>\<open>plot\<close>: a trace is its offset \<open>cd[0].t.poffset\<close> and its bar records \<open>cd\<close>. The path
  function is made once; the scene-graph calls (groups, clip paths) are left out.\<close>

definition plot ::
  "(real \<Rightarrow> string) \<Rightarrow> helpers \<Rightarrow> subplot \<Rightarrow> (poffset \<times> bar list) list \<Rightarrow>
   (bar \<times> string) list list" where
  "plot str hp subplot cdbar =
     (let pathFn = makePathFn str hp subplot
      in map (\<lambda>(poffset, cd). layout_bars pathFn subplot poffset 0 cd) cdbar)"


section \<open>The specification's wording, for comparison\<close>



text \<open>The sector test as the specification words it for a sector that is no full circle:
  sort the bounds, wrap both, lift the upper bound by 360 when it has fallen below the
  lower one, and test the wrapped angle and its alias 360 further.\<close>

definition isAngleInsideSector_spec :: "real \<Rightarrow> real \<times> real \<Rightarrow> bool" where
  "isAngleInsideSector_spec a sector =
     (let lower = wrap360 (min (fst sector) (snd sector));
          upper = wrap360 (max (fst sector) (snd sector));
          upper = (if upper < lower then upper + 360 else upper);
          t = wrap360 (rad2deg a)
      in (lower \<le> t \<and> t \<le> upper) \<or> (lower \<le> t + 360 \<and> t + 360 \<le> upper))"


text \<open>A closed circle of radius \<open>r\<close> about \<open>(cx, cy)\<close> as a subpath of its own: a move to
  the point at angle 0, two half arcs with the large-arc flag 1 and the sweep flag \<open>cw\<close>,
  and the closing \<open>Z\<close>.\<close>

definition circle_loop :: "(real \<Rightarrow> string) \<Rightarrow> real \<Rightarrow> real \<Rightarrow> real \<Rightarrow> nat \<Rightarrow> string" where
  "circle_loop str cx cy r cw =
     ''M'' @ pt str cx cy (Some r) 0 @
     arc str cx cy 1 (Some r) pi cw @
     arc str cx cy 1 (Some r) (2 * pi) cw @ ''Z''"

text \<open>The subpaths of a path string: each ends with its \<open>Z\<close>; what follows the last \<open>Z\<close>, if
  anything, is an open subpath.\<close>

fun subpaths :: "string \<Rightarrow> string list" where
  "subpaths [] = []"
| "subpaths (c # cs) =
     (if c = CHR ''Z'' then [c] # subpaths cs
      else (case subpaths cs of [] \<Rightarrow> [[c]] | g # gs \<Rightarrow> (c # g) # gs))"

text \<open>The number-to-string conversion on integers: the decimal digits, after a minus sign
  for a negative number. It stands for \<open>str\<close> in the closed examples, where it prints a
  number by its integer part.\<close>

definition digit_char :: "nat \<Rightarrow> char" where
  "digit_char n = ''0123456789'' ! (n mod 10)"

fun nat_str :: "nat \<Rightarrow> string" where
  "nat_str n = (if n < 10 then [digit_char n] else nat_str (n div 10) @ [digit_char n])"

definition int_str :: "real \<Rightarrow> string" where
  "int_str x =
     (let k = \<lfloor>x\<rfloor> in if k < 0 then CHR ''-'' # nat_str (nat (- k)) else nat_str (nat k))"

text \<open>The validity check of the layout as the specification words it: a bar is degenerate
  when one of the four projected values is not finite, or the two radii are equal, or the
  two angles are equal.\<close>

definition degenerate :: "jsnum \<Rightarrow> jsnum \<Rightarrow> jsnum \<Rightarrow> jsnum \<Rightarrow> bool" where
  "degenerate rp0 rp1 thetag0 thetag1 =
     (\<not> isNumeric rp0 \<or> \<not> isNumeric rp1 \<or> \<not> isNumeric thetag0 \<or> \<not> isNumeric thetag1 \<or>
      rp0 = rp1 \<or> thetag0 = thetag1)"

text \<open>For the examples of the layout: a bar record before its first pass, a subplot
  centred at the origin with a circular grid whose projections are all the identity, and
  an angular projection that takes degrees to radians.\<close>

definition bar_raw :: "jsnum \<Rightarrow> jsnum \<Rightarrow> jsnum \<Rightarrow> jsnum \<Rightarrow> bar" where
  "bar_raw p w b s =
     \<lparr>bar_p = p, bar_w = w, bar_b = b, bar_s = s,
      bar_p0 = None, bar_p1 = None, bar_s0 = None, bar_s1 = None,
      bar_rp0 = None, bar_rp1 = None, bar_thetag0 = None, bar_thetag1 = None,
      bar_ct = None\<rparr>"

definition subplot_id :: subplot where
  "subplot_id =
     \<lparr>cxx = 0, cyy = 0, vangles = None,
      radialAxis_c2p = (\<lambda>x. x), radialAxis_c2g = (\<lambda>x. x),
      angularAxis_c2g = (\<lambda>x. x), xaxis_c2p = (\<lambda>x. x), yaxis_c2p = (\<lambda>x. x)\<rparr>"

fun c2g_degrees :: "jsnum \<Rightarrow> jsnum" where
  "c2g_degrees (Fin x) = Fin (deg2rad x)"
| "c2g_degrees x = x"

section \<open>Rounding to a double\<close>

text \<open>The exponent and the unit in the last place of a number in a known binade, and the
  rounding there: on a multiple of the unit it is the identity.\<close>

lemma expo_eq:
  assumes "2 powr of_int e \<le> \<bar>x\<bar>" "\<bar>x\<bar> < 2 powr of_int (e + 1)" "- 1022 \<le> e"
  shows "expo x = e"
proof -
  have "0 < (2::real) powr of_int e" by simp
  with assms(1) have pos: "0 < \<bar>x\<bar>" by linarith
  have "\<lfloor>log 2 \<bar>x\<bar>\<rfloor> = e"
    using assms(1,2) pos by (simp add: floor_log_eq_powr_iff)
  with assms(3) show ?thesis by (simp add: expo_def)
qed

lemma expo_nat:
  assumes "2 ^ n \<le> \<bar>x\<bar>" "\<bar>x\<bar> < 2 ^ Suc n"
  shows "expo x = int n"
proof (rule expo_eq)
  show "2 powr of_int (int n) \<le> \<bar>x\<bar>" using assms(1) by (simp add: powr_realpow)
  have "real_of_int (int n + 1) = real (Suc n)" by simp
  moreover have "(2::real) powr real (Suc n) = 2 ^ Suc n"
    by (rule powr_realpow) simp
  ultimately have "2 powr of_int (int n + 1) = (2::real) ^ Suc n"
    by (simp only:)
  then show "\<bar>x\<bar> < 2 powr of_int (int n + 1)" using assms(2) by simp
  show "- 1022 \<le> int n" by simp
qed

lemma ulp_low:
  assumes "expo x = int n" "n \<le> 52"
  shows "ulp x = 1 / 2 ^ (52 - n)"
proof -
  have "real_of_int (int n - 52) = real n - 52" by simp
  moreover have "real (52 - n) = 52 - real n" using assms(2) by (simp add: of_nat_diff)
  ultimately have "real_of_int (int n - 52) = - real (52 - n)" by linarith
  moreover have "(2::real) powr - real (52 - n) = 1 / 2 powr real (52 - n)"
    by (rule powr_minus_divide)
  moreover have "(2::real) powr real (52 - n) = 2 ^ (52 - n)"
    by (rule powr_realpow) simp
  ultimately show ?thesis by (simp only: ulp_def assms(1))
qed


lemma rnd_low:
  assumes "2 ^ n \<le> \<bar>x\<bar>" "\<bar>x\<bar> < 2 ^ Suc n" "n \<le> 52"
  shows "rnd x = of_int (round_even (x * 2 ^ (52 - n))) / 2 ^ (52 - n)"
proof -
  have "0 < (2::real) ^ n" by simp
  with assms(1) have "0 < \<bar>x\<bar>" by linarith
  then have "x \<noteq> 0" by simp
  then show ?thesis
    by (simp add: rnd_def ulp_low [OF expo_nat [OF assms(1,2)] assms(3)])
qed


lemma round_even_of_int: "round_even (of_int m) = m"
  by (simp add: round_even_def)


lemma rnd_350: "rnd 350 = 350"
  by (subst rnd_low [where n = 8]) (simp_all add: round_even_def)










section \<open>Wrapping angles\<close>













lemma wrap360_360: "wrap360 360 = 0"
  by (simp add: wrap360_def js_rem_def trunc_def)

lemma wrap360_minus_10: "wrap360 (- 10) = 350"
  using rnd_350 by (simp add: wrap360_def js_rem_def trunc_def)

















section \<open>Sector containment\<close>

lemma wrap360_0: "wrap360 0 = 0"
  by (simp add: wrap360_def js_rem_def trunc_def)

lemma wrap360_10: "wrap360 10 = 10"
  by (simp add: wrap360_def js_rem_def trunc_def)

lemma wrap360_180: "wrap360 180 = 180"
  by (simp add: wrap360_def js_rem_def trunc_def)

lemma wrap360_350: "wrap360 350 = 350"
  by (simp add: wrap360_def js_rem_def trunc_def)

lemma wrap360_355: "wrap360 355 = 355"
  by (simp add: wrap360_def js_rem_def trunc_def)

lemmas wrap360_values =
  wrap360_0 wrap360_10 wrap360_180 wrap360_350 wrap360_355 wrap360_minus_10

lemma rad2deg_deg2rad: "rad2deg (deg2rad x) = x"
  by (simp add: rad2deg_def deg2rad_def)

lemma inside_350_10:
  "\<not> isAngleInsideSector (deg2rad 0) (350, 10)"
  "\<not> isAngleInsideSector (deg2rad 355) (350, 10)"
  "isAngleInsideSector (deg2rad 180) (350, 10)"
  by (simp_all add: isAngleInsideSector_def isFullCircle_def rad2deg_deg2rad wrap360_values)

lemma inside_minus_10_10:
  "isAngleInsideSector (deg2rad 0) (- 10, 10)"
  "isAngleInsideSector (deg2rad 355) (- 10, 10)"
  "\<not> isAngleInsideSector (deg2rad 180) (- 10, 10)"
  by (simp_all add: isAngleInsideSector_def isFullCircle_def rad2deg_deg2rad wrap360_values)

lemma inside_follows_spec:
  "\<not> isFullCircle sector \<Longrightarrow>
   isAngleInsideSector a sector = isAngleInsideSector_spec a sector"
  by (auto simp add: isAngleInsideSector_def isAngleInsideSector_spec_def Let_def
      min_def max_def)

text \<open>
  Claim C1, as stated, fails on its example: the bounds of the sector \<open>[350, 10]\<close> are sorted
  before anything else, so the sector tested is the one from 10 to 350 degrees. The angles
  0 and 355 degrees are outside it and 180 degrees is inside.
\<close>

theorem sector_350_10_counterexample:
  "\<not> isAngleInsideSector (deg2rad 0) (350, 10) \<and>
   \<not> isAngleInsideSector (deg2rad 355) (350, 10) \<and>
   isAngleInsideSector (deg2rad 180) (350, 10)"
  by (simp add: inside_350_10)

text \<open>
  Claim C1, amended. For a full circle the test is true of every angle, at once. A sector
  that is no full circle is tested by the algorithm of the specification: sort the bounds ascending, wrap both into the interval from 0 to 360, add
  360 to the upper bound when it has fallen below the lower one, and test the wrapped
  angle and its alias 360 further for inclusive membership. The sorting makes \<open>[350, 10]\<close>
  the sector from 10 to 350 degrees: 0 and 355 degrees are outside, 180 degrees is inside.
  The wrap-around sector that holds 0 and 355 degrees and not 180 degrees is \<open>[-10, 10]\<close>.
\<close>

theorem isAngleInsideSector_algorithm:
  "(isFullCircle sector \<longrightarrow> isAngleInsideSector a sector) \<and>
   (\<not> isFullCircle sector \<longrightarrow>
      isAngleInsideSector a sector = isAngleInsideSector_spec a sector) \<and>
   \<not> isAngleInsideSector (deg2rad 0) (350, 10) \<and>
   \<not> isAngleInsideSector (deg2rad 355) (350, 10) \<and>
   isAngleInsideSector (deg2rad 180) (350, 10) \<and>
   isAngleInsideSector (deg2rad 0) (- 10, 10) \<and>
   isAngleInsideSector (deg2rad 355) (- 10, 10) \<and>
   \<not> isAngleInsideSector (deg2rad 180) (- 10, 10)"
proof -
  have "isFullCircle sector \<longrightarrow> isAngleInsideSector a sector"
    by (simp add: isAngleInsideSector_def)
  with inside_follows_spec [of sector a] show ?thesis
    by (simp add: inside_350_10 inside_minus_10_10)
qed

theorem isAngleInsideSector_algorithm_witness:
  "isFullCircle (0, 360) \<and>
   isAngleInsideSector (deg2rad 180) (0, 360) \<and>
   \<not> isAngleInsideSector_spec (deg2rad 180) (0, 360) \<and>
   \<not> isFullCircle (- 10, 10) \<and>
   isAngleInsideSector (deg2rad 355) (- 10, 10) \<and>
   isAngleInsideSector_spec (deg2rad 355) (- 10, 10)"
proof -
  have f: "isFullCircle (0, 360)" by (simp add: isFullCircle_def)
  have n: "\<not> isFullCircle (- 10, 10)" by (simp add: isFullCircle_def)
  have s: "\<not> isAngleInsideSector_spec (deg2rad 180) (0, 360)"
    by (simp add: isAngleInsideSector_spec_def wrap360_360 rad2deg_deg2rad wrap360_values)
  from f isAngleInsideSector_algorithm [of "(0, 360)" "deg2rad 180"]
  have 1: "isAngleInsideSector (deg2rad 180) (0, 360)" by blast
  from n isAngleInsideSector_algorithm [of "(- 10, 10)" "deg2rad 355"]
  have 2: "isAngleInsideSector (deg2rad 355) (- 10, 10) \<and>
      isAngleInsideSector_spec (deg2rad 355) (- 10, 10)" by blast
  from f 1 s n 2 show ?thesis by blast
qed

text \<open>
  Claim C5. \<open>isFullCircle\<close> holds exactly when the absolute difference of the two bounds
  equals 360, with no tolerance: it holds of \<open>[0, 360]\<close> and not of \<open>[0, 359.999]\<close>. When the
  sector is a full circle, \<open>isAngleInsideSector\<close> is true of every angle.
\<close>

theorem isFullCircle_exact:
  "isFullCircle sector = (\<bar>snd sector - fst sector\<bar> = 360) \<and>
   isFullCircle (0, 360) \<and>
   \<not> isFullCircle (0, 359.999) \<and>
   (isFullCircle sector \<longrightarrow> isAngleInsideSector a sector)"
  by (simp add: isFullCircle_def isAngleInsideSector_def)

theorem isFullCircle_exact_witness:
  "isFullCircle (90, 450) \<and> isAngleInsideSector 2 (90, 450)"
proof -
  have "isFullCircle (90, 450)" by (simp add: isFullCircle_def)
  with isFullCircle_exact [of "(90, 450)" 2] show ?thesis by simp
qed

text \<open>
  Claim C8. The containment tests sort their pairs: swapping the two radii of the radial
  range, or the two bounds of the sector, changes neither test. In particular the point
  with radius 5 and angle 0 is inside the radial range \<open>[10, 2]\<close> and the sector \<open>[-10, 10]\<close>.
\<close>

theorem containment_pair_order:
  "isPtInsideSector r a (r0, r1) sector = isPtInsideSector r a (r1, r0) sector \<and>
   isAngleInsideSector a (s0, s1) = isAngleInsideSector a (s1, s0) \<and>
   isPtInsideSector 5 0 (10, 2) (- 10, 10)"
proof -
  have "isPtInsideSector r a (r0, r1) sector = isPtInsideSector r a (r1, r0) sector"
    by (cases r0 r1 rule: linorder_cases) (simp_all add: isPtInsideSector_def)
  moreover have "isAngleInsideSector a (s0, s1) = isAngleInsideSector a (s1, s0)"
    by (cases s0 s1 rule: linorder_cases)
      (simp_all add: isAngleInsideSector_def isFullCircle_def abs_minus_commute)
  moreover have "isPtInsideSector 5 0 (10, 2) (- 10, 10)"
    by (simp add: isPtInsideSector_def isAngleInsideSector_def isFullCircle_def
        rad2deg_def wrap360_values)
  ultimately show ?thesis by simp
qed


section \<open>Properties of the path builders\<close>

declare nat_str.simps [simp del]

lemma floor_minus_one_real: "\<lfloor>- 1 :: real\<rfloor> = - 1"
  using floor_of_int [of "- 1", where ?'a = real] by simp

lemma int_str_values:
  "int_str 0 = ''0''" "int_str 1 = ''1''" "int_str 2 = ''2''" "int_str 3 = ''3''"
  "int_str (- 1) = ''-1''" "int_str (- 2) = ''-2''" "int_str (- 3) = ''-3''"
  by (simp_all add: int_str_def Let_def floor_minus_one_real nat_str.simps digit_char_def)

lemma digit_char_not_Z: "digit_char n \<noteq> CHR ''Z''"
proof -
  have "n mod 10 < 10" by simp
  then have "n mod 10 = 0 \<or> n mod 10 = 1 \<or> n mod 10 = 2 \<or> n mod 10 = 3 \<or>
    n mod 10 = 4 \<or> n mod 10 = 5 \<or> n mod 10 = 6 \<or> n mod 10 = 7 \<or>
    n mod 10 = 8 \<or> n mod 10 = 9"
    by arith
  then show ?thesis unfolding digit_char_def by (elim disjE) simp_all
qed

lemma nat_str_no_Z: "CHR ''Z'' \<notin> set (nat_str n)"
proof (induction n rule: nat_str.induct)
  case (1 n)
  show ?case
  proof (cases "n < 10")
    case True
    then show ?thesis using digit_char_not_Z [of n] by (simp add: nat_str.simps [of n])
  next
    case False
    with 1 digit_char_not_Z [of n] show ?thesis by (simp add: nat_str.simps [of n])
  qed
qed

lemma int_str_no_Z: "CHR ''Z'' \<notin> set (int_str x)"
  by (simp add: int_str_def Let_def nat_str_no_Z)

lemma subpaths_closed:
  "CHR ''Z'' \<notin> set u \<Longrightarrow> subpaths (u @ CHR ''Z'' # rest) = (u @ ''Z'') # subpaths rest"
  by (induction u) auto

lemma path_common_swap_angles:
  "path_common str r0 r1 a0 a1 cx cy c = path_common str r0 r1 a1 a0 cx cy c"
  by (cases a0 a1 rule: linorder_cases)
    (simp_all add: path_common_def isFullCircle_def abs_minus_commute)

lemma path_common_swap_radii:
  "path_common str (Some r0) (Some r1) a0 a1 cx cy c =
   path_common str (Some r1) (Some r0) a0 a1 cx cy c"
  by (cases r0 r1 rule: linorder_cases) (simp_all add: path_common_def toNumber_def)

lemma largeArc_full: "largeArc 0 (2 * pi) = 1"
  using pi_gt_zero by (simp add: largeArc_def)

lemma pathAnnulus_full:
  assumes "isFullCircle (rad2deg a0, rad2deg a1)"
  shows "pathAnnulus str r0 r1 a0 a1 cx cy =
    circle_loop str (or0 cx) (or0 cy) (min r0 r1) 0 @
    circle_loop str (or0 cx) (or0 cy) (max r0 r1) 1"
  using assms
  by (simp add: pathAnnulus_def path_common_def toNumber_def largeArc_full circle_loop_def
      min_def max_def Let_def)

lemma circle_loop_body:
  assumes "\<forall>x. CHR ''Z'' \<notin> set (str x)"
  shows "\<exists>u. CHR ''Z'' \<notin> set u \<and> circle_loop str x y r cw = u @ ''Z''"
  using assms by (auto simp add: circle_loop_def pt_def arc_def item_def flag_def)

lemma full_circle_0_2pi: "isFullCircle (rad2deg 0, rad2deg (2 * pi))"
  by (simp add: isFullCircle_def rad2deg_def)

text \<open>
  Claim C4. For radii \<open>r0\<close>, \<open>r1\<close> (numbers, not \<open>null\<close>) and angles whose span in degrees is
  exactly 360, \<open>pathAnnulus\<close> is two closed subpaths one after the other: the circle of the
  smaller radius with the sweep flag 0 on both its arcs, then the circle of the larger
  radius with the sweep flag 1 on both. When the number conversion prints no \<open>Z\<close>, these
  two are all the subpaths of the string.
\<close>

theorem pathAnnulus_full_circle:
  assumes "isFullCircle (rad2deg a0, rad2deg a1)"
  shows "pathAnnulus str r0 r1 a0 a1 cx cy =
      circle_loop str (or0 cx) (or0 cy) (min r0 r1) 0 @
      circle_loop str (or0 cx) (or0 cy) (max r0 r1) 1 \<and>
    ((\<forall>x. CHR ''Z'' \<notin> set (str x)) \<longrightarrow>
      subpaths (pathAnnulus str r0 r1 a0 a1 cx cy) =
        [circle_loop str (or0 cx) (or0 cy) (min r0 r1) 0,
         circle_loop str (or0 cx) (or0 cy) (max r0 r1) 1])"
proof (intro conjI impI)
  show eq: "pathAnnulus str r0 r1 a0 a1 cx cy =
      circle_loop str (or0 cx) (or0 cy) (min r0 r1) 0 @
      circle_loop str (or0 cx) (or0 cy) (max r0 r1) 1"
    by (rule pathAnnulus_full [OF assms])
  assume nz: "\<forall>x. CHR ''Z'' \<notin> set (str x)"
  obtain u where u: "CHR ''Z'' \<notin> set u"
    "circle_loop str (or0 cx) (or0 cy) (min r0 r1) 0 = u @ ''Z''"
    using circle_loop_body [OF nz] by blast
  obtain v where v: "CHR ''Z'' \<notin> set v"
    "circle_loop str (or0 cx) (or0 cy) (max r0 r1) 1 = v @ ''Z''"
    using circle_loop_body [OF nz] by blast
  have "subpaths ((u @ ''Z'') @ (v @ ''Z'')) = [u @ ''Z'', v @ ''Z'']"
    using subpaths_closed [OF u(1), of "v @ ''Z''"] subpaths_closed [OF v(1), of "[]"]
    by simp
  then show "subpaths (pathAnnulus str r0 r1 a0 a1 cx cy) =
      [circle_loop str (or0 cx) (or0 cy) (min r0 r1) 0,
       circle_loop str (or0 cx) (or0 cy) (max r0 r1) 1]"
    unfolding eq u(2) v(2) .
qed

theorem pathAnnulus_full_circle_witness:
  "isFullCircle (rad2deg 0, rad2deg (2 * pi)) \<and>
   (\<forall>x. CHR ''Z'' \<notin> set (int_str x)) \<and>
   subpaths (pathAnnulus int_str 2 1 0 (2 * pi) None None) =
     [''M1,0A1,1 0,1,0 -1,0A1,1 0,1,0 1,0Z'', ''M2,0A2,2 0,1,1 -2,0A2,2 0,1,1 2,0Z'']"
proof -
  have "subpaths (pathAnnulus int_str 2 1 0 (2 * pi) None None) =
      [circle_loop int_str (or0 None) (or0 None) (min 2 1) 0,
       circle_loop int_str (or0 None) (or0 None) (max 2 1) 1]"
    using pathAnnulus_full_circle [OF full_circle_0_2pi, of int_str 2 1 None None]
      int_str_no_Z by blast
  then show ?thesis
    by (simp add: full_circle_0_2pi int_str_no_Z circle_loop_def pt_def arc_def item_def
        flag_def or0_def toNumber_def int_str_values)
qed

text \<open>
  Claim C9. The path builders do not depend on the order within a pair: \<open>pathAnnulus\<close>
  returns the same string when its two radii are swapped and when its two angles are
  swapped, and \<open>pathArc\<close> and \<open>pathSector\<close> return the same string when their two angles are
  swapped.
\<close>

theorem path_pair_order:
  "pathAnnulus str r0 r1 a0 a1 cx cy = pathAnnulus str r1 r0 a0 a1 cx cy \<and>
   pathAnnulus str r0 r1 a0 a1 cx cy = pathAnnulus str r0 r1 a1 a0 cx cy \<and>
   pathArc str r a0 a1 cx cy = pathArc str r a1 a0 cx cy \<and>
   pathSector str r a0 a1 cx cy = pathSector str r a1 a0 cx cy"
  unfolding pathAnnulus_def pathArc_def pathSector_def
  using path_common_swap_radii [of str r0 r1 a0 a1 cx cy True]
    path_common_swap_angles [of str "Some r0" "Some r1" a0 a1 cx cy True]
    path_common_swap_angles [of str None "Some r" a0 a1 cx cy False]
    path_common_swap_angles [of str None "Some r" a0 a1 cx cy True]
  by simp


section \<open>The bar layout\<close>

lemma strict_eq_numeric: "isNumeric x \<Longrightarrow> strict_eq x y = (x = y)"
  by (cases x) (simp_all add: strict_eq_def)

text \<open>The condition of the layout's \<open>if\<close> is the validity check of the specification.\<close>

lemma validity_check:
  "(\<not> isNumeric rp0 \<or> \<not> isNumeric rp1 \<or> \<not> isNumeric t0 \<or> \<not> isNumeric t1 \<or>
    strict_eq rp0 rp1 \<or> strict_eq t0 t1) = degenerate rp0 rp1 t0 t1"
  unfolding degenerate_def
  using strict_eq_numeric [of rp0 rp1] strict_eq_numeric [of t0 t1]
  by blast

lemma layout_bar_derived:
  "bar_p0 (fst (layout_bar pathFn sp poffset i di)) =
     Some (jadd (bar_p di) (poffset_at poffset i))"
  "bar_p1 (fst (layout_bar pathFn sp poffset i di)) =
     Some (jadd (jadd (bar_p di) (poffset_at poffset i)) (bar_w di))"
  "bar_s0 (fst (layout_bar pathFn sp poffset i di)) = Some (bar_b di)"
  "bar_s1 (fst (layout_bar pathFn sp poffset i di)) = Some (jadd (bar_b di) (bar_s di))"
  "bar_rp0 (fst (layout_bar pathFn sp poffset i di)) =
     Some (radialAxis_c2p sp (bar_b di))"
  "bar_rp1 (fst (layout_bar pathFn sp poffset i di)) =
     Some (radialAxis_c2p sp (jadd (bar_b di) (bar_s di)))"
  "bar_thetag0 (fst (layout_bar pathFn sp poffset i di)) =
     Some (angularAxis_c2g sp (jadd (bar_p di) (poffset_at poffset i)))"
  "bar_thetag1 (fst (layout_bar pathFn sp poffset i di)) =
     Some (angularAxis_c2g sp (jadd (jadd (bar_p di) (poffset_at poffset i)) (bar_w di)))"
  by (simp_all add: layout_bar_def Let_def)

lemma layout_bar_raw:
  "bar_p (fst (layout_bar pathFn sp poffset i di)) = bar_p di"
  "bar_w (fst (layout_bar pathFn sp poffset i di)) = bar_w di"
  "bar_b (fst (layout_bar pathFn sp poffset i di)) = bar_b di"
  "bar_s (fst (layout_bar pathFn sp poffset i di)) = bar_s di"
  by (simp_all add: layout_bar_def Let_def)

lemma layout_bar_degenerate:
  assumes "degenerate (radialAxis_c2p sp (bar_b di))
     (radialAxis_c2p sp (jadd (bar_b di) (bar_s di)))
     (angularAxis_c2g sp (jadd (bar_p di) (poffset_at poffset i)))
     (angularAxis_c2g sp (jadd (jadd (bar_p di) (poffset_at poffset i)) (bar_w di)))"
  shows "snd (layout_bar pathFn sp poffset i di) = ''M0,0Z''"
    and "bar_ct (fst (layout_bar pathFn sp poffset i di)) = bar_ct di"
  using assms unfolding validity_check [symmetric]
  by (simp_all add: layout_bar_def Let_def)

lemma layout_bar_valid:
  assumes "\<not> degenerate (radialAxis_c2p sp (bar_b di))
     (radialAxis_c2p sp (jadd (bar_b di) (bar_s di)))
     (angularAxis_c2g sp (jadd (bar_p di) (poffset_at poffset i)))
     (angularAxis_c2g sp (jadd (jadd (bar_p di) (poffset_at poffset i)) (bar_w di)))"
  shows "snd (layout_bar pathFn sp poffset i di) =
      pathFn (the_fin (radialAxis_c2p sp (bar_b di)))
        (the_fin (radialAxis_c2p sp (jadd (bar_b di) (bar_s di))))
        (the_fin (angularAxis_c2g sp (jadd (bar_p di) (poffset_at poffset i))))
        (the_fin (angularAxis_c2g sp
           (jadd (jadd (bar_p di) (poffset_at poffset i)) (bar_w di))))"
    and "bar_ct (fst (layout_bar pathFn sp poffset i di)) =
      Some
       (xaxis_c2p sp
          (jmul (radialAxis_c2g sp (jadd (bar_b di) (bar_s di)))
             (Math_cos (jdiv (jadd
                (angularAxis_c2g sp (jadd (bar_p di) (poffset_at poffset i)))
                (angularAxis_c2g sp
                   (jadd (jadd (bar_p di) (poffset_at poffset i)) (bar_w di))))
                (Fin 2)))),
        yaxis_c2p sp
          (jmul (radialAxis_c2g sp (jadd (bar_b di) (bar_s di)))
             (Math_sin (jdiv (jadd
                (angularAxis_c2g sp (jadd (bar_p di) (poffset_at poffset i)))
                (angularAxis_c2g sp
                   (jadd (jadd (bar_p di) (poffset_at poffset i)) (bar_w di))))
                (Fin 2)))))"
  using assms unfolding validity_check [symmetric]
  by (simp_all add: layout_bar_def Let_def)

lemma layout_bars_length: "length (layout_bars pathFn sp poffset i cd) = length cd"
  by (induction cd arbitrary: i) simp_all

lemma layout_bars_nth:
  "k < length cd \<Longrightarrow>
   layout_bars pathFn sp poffset i cd ! k = layout_bar pathFn sp poffset (i + k) (cd ! k)"
proof (induction cd arbitrary: i k)
  case Nil
  then show ?case by simp
next
  case (Cons di ds)
  then show ?case by (cases k) simp_all
qed

text \<open>A bar whose base is NaN has the radii \<open>c2p NaN\<close> twice: not finite, or equal.\<close>

lemma degenerate_same_radius: "degenerate r r t0 t1"
  by (simp add: degenerate_def)


text \<open>
  Claim C3. When one of the projected values \<open>rp0\<close>, \<open>rp1\<close>, \<open>thetag0\<close>, \<open>thetag1\<close> that the
  pass has written on the bar is not finite, or the two radii are equal, or the two angles
  are equal, the path set on the bar is exactly \<open>M0,0Z\<close> and the centroid \<open>ct\<close> is left as
  it was. A bar whose base \<open>b\<close> is NaN is such a bar, whatever the projections are. The pass
  raises nothing and goes on: it returns one result for every bar of the trace, the result
  at index \<open>k\<close> being the layout of bar \<open>k\<close> on its own.
\<close>

theorem degenerate_bar_sentinel:
  "(layout_bar pathFn sp poffset i di = (di', dPath) \<and>
    bar_rp0 di' = Some rp0 \<and> bar_rp1 di' = Some rp1 \<and>
    bar_thetag0 di' = Some thetag0 \<and> bar_thetag1 di' = Some thetag1 \<and>
    degenerate rp0 rp1 thetag0 thetag1 \<longrightarrow>
      dPath = ''M0,0Z'' \<and> bar_ct di' = bar_ct di) \<and>
   (bar_b di = NaN \<longrightarrow>
      snd (layout_bar pathFn sp poffset i di) = ''M0,0Z'' \<and>
      bar_ct (fst (layout_bar pathFn sp poffset i di)) = bar_ct di) \<and>
   length (layout_bars pathFn sp poffset i cd) = length cd \<and>
   (\<forall>k<length cd.
      layout_bars pathFn sp poffset i cd ! k =
      layout_bar pathFn sp poffset (i + k) (cd ! k))"
proof (intro conjI impI allI)
  assume a: "layout_bar pathFn sp poffset i di = (di', dPath) \<and>
    bar_rp0 di' = Some rp0 \<and> bar_rp1 di' = Some rp1 \<and>
    bar_thetag0 di' = Some thetag0 \<and> bar_thetag1 di' = Some thetag1 \<and>
    degenerate rp0 rp1 thetag0 thetag1"
  then have di': "di' = fst (layout_bar pathFn sp poffset i di)"
    and dPath: "dPath = snd (layout_bar pathFn sp poffset i di)"
    by simp_all
  from a have "degenerate (radialAxis_c2p sp (bar_b di))
     (radialAxis_c2p sp (jadd (bar_b di) (bar_s di)))
     (angularAxis_c2g sp (jadd (bar_p di) (poffset_at poffset i)))
     (angularAxis_c2g sp (jadd (jadd (bar_p di) (poffset_at poffset i)) (bar_w di)))"
    unfolding di' layout_bar_derived by simp
  then show "dPath = ''M0,0Z''" "bar_ct di' = bar_ct di"
    unfolding di' dPath by (rule layout_bar_degenerate)+
next
  assume "bar_b di = NaN"
  then have "degenerate (radialAxis_c2p sp (bar_b di))
     (radialAxis_c2p sp (jadd (bar_b di) (bar_s di)))
     (angularAxis_c2g sp (jadd (bar_p di) (poffset_at poffset i)))
     (angularAxis_c2g sp (jadd (jadd (bar_p di) (poffset_at poffset i)) (bar_w di)))"
    by (simp add: degenerate_same_radius)
  then show "snd (layout_bar pathFn sp poffset i di) = ''M0,0Z''"
    "bar_ct (fst (layout_bar pathFn sp poffset i di)) = bar_ct di"
    by (rule layout_bar_degenerate)+
next
  show "length (layout_bars pathFn sp poffset i cd) = length cd"
    by (rule layout_bars_length)
next
  fix k
  assume "k < length cd"
  then show "layout_bars pathFn sp poffset i cd ! k =
      layout_bar pathFn sp poffset (i + k) (cd ! k)"
    by (rule layout_bars_nth)
qed

theorem degenerate_bar_sentinel_witness:
  "\<forall>hp.
     bar_b (bar_raw (Fin 0) (Fin 90) NaN (Fin 2)) = NaN \<and>
     snd (layout_bar (makePathFn int_str hp subplot_id) subplot_id (Scalar (Fin 0)) 0
       (bar_raw (Fin 0) (Fin 90) NaN (Fin 2))) = ''M0,0Z'' \<and>
     bar_ct (fst (layout_bar (makePathFn int_str hp subplot_id) subplot_id (Scalar (Fin 0)) 0
       (bar_raw (Fin 0) (Fin 90) NaN (Fin 2)))) = None \<and>
     degenerate (Fin 1) (Fin 1) (Fin 0) (Fin 90) \<and>
     snd (layout_bar (makePathFn int_str hp subplot_id) subplot_id (Scalar (Fin 0)) 0
       (bar_raw (Fin 0) (Fin 90) (Fin 1) (Fin 0))) = ''M0,0Z'' \<and>
     (1 :: nat) < length [bar_raw (Fin 0) (Fin 90) NaN (Fin 2),
        bar_raw (Fin 0) (Fin 90) (Fin 1) (Fin 0)] \<and>
     snd (layout_bars (makePathFn int_str hp subplot_id) subplot_id (Scalar (Fin 0)) 0
       [bar_raw (Fin 0) (Fin 90) NaN (Fin 2), bar_raw (Fin 0) (Fin 90) (Fin 1) (Fin 0)] ! 1) =
       ''M0,0Z''"
proof
  fix hp
  let ?pf = "makePathFn int_str hp subplot_id"
  let ?po = "Scalar (Fin 0)"
  let ?d1 = "bar_raw (Fin 0) (Fin 90) NaN (Fin 2)"
  let ?d2 = "bar_raw (Fin 0) (Fin 90) (Fin 1) (Fin 0)"
  have b: "bar_b ?d1 = NaN" by (simp add: bar_raw_def)
  have ct: "bar_ct ?d1 = None" by (simp add: bar_raw_def)
  have dg: "degenerate (Fin 1) (Fin 1) (Fin 0) (Fin 90)" by (simp add: degenerate_def)
  have len: "(1 :: nat) < length [?d1, ?d2]" by simp
  note T1 = degenerate_bar_sentinel [of ?pf subplot_id ?po 0 ?d1
      "fst (layout_bar ?pf subplot_id ?po 0 ?d1)" "snd (layout_bar ?pf subplot_id ?po 0 ?d1)"
      NaN NaN "Fin 0" "Fin 90" "[?d1, ?d2]"]
  note T2 = degenerate_bar_sentinel [of ?pf subplot_id ?po 0 ?d2
      "fst (layout_bar ?pf subplot_id ?po 0 ?d2)" "snd (layout_bar ?pf subplot_id ?po 0 ?d2)"
      "Fin 1" "Fin 1" "Fin 0" "Fin 90" "[?d1, ?d2]"]
  have 1: "snd (layout_bar ?pf subplot_id ?po 0 ?d1) = ''M0,0Z''"
    "bar_ct (fst (layout_bar ?pf subplot_id ?po 0 ?d1)) = None"
    using T1 b ct by simp_all
  have f2: "bar_rp0 (fst (layout_bar ?pf subplot_id ?po 0 ?d2)) = Some (Fin 1)"
    "bar_rp1 (fst (layout_bar ?pf subplot_id ?po 0 ?d2)) = Some (Fin 1)"
    "bar_thetag0 (fst (layout_bar ?pf subplot_id ?po 0 ?d2)) = Some (Fin 0)"
    "bar_thetag1 (fst (layout_bar ?pf subplot_id ?po 0 ?d2)) = Some (Fin 90)"
    by (simp_all add: layout_bar_derived bar_raw_def subplot_id_def poffset_at_def)
  have 2: "snd (layout_bar ?pf subplot_id ?po 0 ?d2) = ''M0,0Z''"
    using T2 f2 dg by simp
  have nth: "layout_bars ?pf subplot_id ?po 0 [?d1, ?d2] ! 1 =
      layout_bar ?pf subplot_id ?po (0 + 1) ([?d1, ?d2] ! 1)"
    using T1 len by blast
  have 3: "snd (layout_bars ?pf subplot_id ?po 0 [?d1, ?d2] ! 1) = ''M0,0Z''"
    unfolding nth
    by (simp add: layout_bar_def Let_def bar_raw_def subplot_id_def poffset_at_def
        strict_eq_def)
  from b 1 dg 2 len 3
  show "bar_b ?d1 = NaN \<and>
     snd (layout_bar ?pf subplot_id ?po 0 ?d1) = ''M0,0Z'' \<and>
     bar_ct (fst (layout_bar ?pf subplot_id ?po 0 ?d1)) = None \<and>
     degenerate (Fin 1) (Fin 1) (Fin 0) (Fin 90) \<and>
     snd (layout_bar ?pf subplot_id ?po 0 ?d2) = ''M0,0Z'' \<and>
     (1 :: nat) < length [?d1, ?d2] \<and>
     snd (layout_bars ?pf subplot_id ?po 0 [?d1, ?d2] ! 1) = ''M0,0Z''"
    by blast
qed

text \<open>
  Claim C10. Every pass writes the derived fields \<open>p0\<close>, \<open>p1\<close>, \<open>s0\<close>, \<open>s1\<close>, \<open>rp0\<close>, \<open>rp1\<close>,
  \<open>thetag0\<close>, \<open>thetag1\<close> on the bar, whatever the branch, and leaves the raw fields alone.
  The centroid \<open>ct\<close> is written on the valid branch only: a degenerate bar keeps the \<open>ct\<close>
  it held before the pass.
\<close>

theorem derived_fields_frame:
  assumes "layout_bar pathFn sp poffset i di = (di', dPath)"
    and "p0 = jadd (bar_p di) (poffset_at poffset i)" and "p1 = jadd p0 (bar_w di)"
    and "s0 = bar_b di" and "s1 = jadd s0 (bar_s di)"
    and "rp0 = radialAxis_c2p sp s0" and "rp1 = radialAxis_c2p sp s1"
    and "thetag0 = angularAxis_c2g sp p0" and "thetag1 = angularAxis_c2g sp p1"
  shows "bar_p0 di' = Some p0 \<and> bar_p1 di' = Some p1 \<and>
    bar_s0 di' = Some s0 \<and> bar_s1 di' = Some s1 \<and>
    bar_rp0 di' = Some rp0 \<and> bar_rp1 di' = Some rp1 \<and>
    bar_thetag0 di' = Some thetag0 \<and> bar_thetag1 di' = Some thetag1 \<and>
    bar_p di' = bar_p di \<and> bar_w di' = bar_w di \<and>
    bar_b di' = bar_b di \<and> bar_s di' = bar_s di \<and>
    (degenerate rp0 rp1 thetag0 thetag1 \<longrightarrow> bar_ct di' = bar_ct di) \<and>
    (\<not> degenerate rp0 rp1 thetag0 thetag1 \<longrightarrow>
       bar_ct di' = Some
         (xaxis_c2p sp (jmul (radialAxis_c2g sp s1)
            (Math_cos (jdiv (jadd thetag0 thetag1) (Fin 2)))),
          yaxis_c2p sp (jmul (radialAxis_c2g sp s1)
            (Math_sin (jdiv (jadd thetag0 thetag1) (Fin 2))))))"
proof -
  have di': "di' = fst (layout_bar pathFn sp poffset i di)"
    using assms(1) by simp
  show ?thesis
    unfolding di' assms(2-9)
    using layout_bar_degenerate(2) [of sp di poffset i pathFn]
      layout_bar_valid(2) [of sp di poffset i pathFn]
    by (simp add: layout_bar_derived layout_bar_raw)
qed

theorem derived_fields_frame_witness:
  "degenerate (Fin 1) (Fin 1) (Fin 0) (Fin 90) \<and>
   bar_ct (fst (layout_bar (\<lambda>r0 r1 a0 a1. []) subplot_id (Scalar (Fin 0)) 0
     ((bar_raw (Fin 0) (Fin 90) (Fin 1) (Fin 0))\<lparr>bar_ct := Some (Fin 5, Fin 6)\<rparr>))) =
     Some (Fin 5, Fin 6) \<and>
   bar_rp1 (fst (layout_bar (\<lambda>r0 r1 a0 a1. []) subplot_id (Scalar (Fin 0)) 0
     ((bar_raw (Fin 0) (Fin 90) (Fin 1) (Fin 0))\<lparr>bar_ct := Some (Fin 5, Fin 6)\<rparr>))) =
     Some (Fin 1) \<and>
   \<not> degenerate (Fin 1) (Fin 3) (Fin 0) (Fin 90) \<and>
   bar_ct (fst (layout_bar (\<lambda>r0 r1 a0 a1. []) subplot_id (Scalar (Fin 0)) 0
     ((bar_raw (Fin 0) (Fin 90) (Fin 1) (Fin 2))\<lparr>bar_ct := Some (Fin 5, Fin 6)\<rparr>))) =
     Some (Fin (3 * cos 45), Fin (3 * sin 45))"
proof -
  let ?pf = "\<lambda>(r0::real) (r1::real) (a0::real) (a1::real). ([]::string)"
  let ?d1 = "(bar_raw (Fin 0) (Fin 90) (Fin 1) (Fin 0))\<lparr>bar_ct := Some (Fin 5, Fin 6)\<rparr>"
  let ?d2 = "(bar_raw (Fin 0) (Fin 90) (Fin 1) (Fin 2))\<lparr>bar_ct := Some (Fin 5, Fin 6)\<rparr>"
  have dg: "degenerate (Fin 1) (Fin 1) (Fin 0) (Fin 90)"
    and nd: "\<not> degenerate (Fin 1) (Fin 3) (Fin 0) (Fin 90)"
    by (simp_all add: degenerate_def)
  have 1: "bar_ct (fst (layout_bar ?pf subplot_id (Scalar (Fin 0)) 0 ?d1)) = Some (Fin 5, Fin 6) \<and>
     bar_rp1 (fst (layout_bar ?pf subplot_id (Scalar (Fin 0)) 0 ?d1)) = Some (Fin 1)"
    using dg derived_fields_frame [of ?pf subplot_id "Scalar (Fin 0)" 0 ?d1
        "fst (layout_bar ?pf subplot_id (Scalar (Fin 0)) 0 ?d1)"
        "snd (layout_bar ?pf subplot_id (Scalar (Fin 0)) 0 ?d1)",
        OF _ refl refl refl refl refl refl refl refl]
    by (simp add: bar_raw_def subplot_id_def poffset_at_def)
  have 2: "bar_ct (fst (layout_bar ?pf subplot_id (Scalar (Fin 0)) 0 ?d2)) =
      Some (Fin (3 * cos 45), Fin (3 * sin 45))"
    using nd derived_fields_frame [of ?pf subplot_id "Scalar (Fin 0)" 0 ?d2
        "fst (layout_bar ?pf subplot_id (Scalar (Fin 0)) 0 ?d2)"
        "snd (layout_bar ?pf subplot_id (Scalar (Fin 0)) 0 ?d2)",
        OF _ refl refl refl refl refl refl refl refl]
    by (simp add: bar_raw_def subplot_id_def poffset_at_def)
  from dg nd 1 2 show ?thesis by blast
qed

text \<open>The annulus sector that is no full circle, and the bar of the specification's
  example: angular position 0 and width 90, base 1 and length 2, on a circular grid with
  the identity as radial projection.\<close>

lemma not_full_90: "\<not> isFullCircle (rad2deg 0, rad2deg 90)"
proof -
  have "pi \<noteq> 45" using pi_less_4 by simp
  then show ?thesis by (simp add: isFullCircle_def rad2deg_def field_simps)
qed

lemma not_full_quarter: "\<not> isFullCircle (rad2deg 0, rad2deg (pi / 2))"
  by (simp add: isFullCircle_def rad2deg_def)

lemma largeArc_90: "largeArc 0 90 = 1"
  using pi_less_4 by (simp add: largeArc_def)

lemma largeArc_quarter: "largeArc 0 (pi / 2) = 0"
  using pi_ge_zero by (simp add: largeArc_def)

lemma pathAnnulus_sector:
  assumes "\<not> isFullCircle (rad2deg a0, rad2deg a1)" "a0 < a1" "r0 < r1"
  shows "pathAnnulus str r0 r1 a0 a1 cx cy =
    ''M'' @ pt str (or0 cx) (or0 cy) (Some r0) a0 @
    ''L'' @ pt str (or0 cx) (or0 cy) (Some r1) a0 @
    arc str (or0 cx) (or0 cy) (largeArc a0 a1) (Some r1) a1 0 @
    ''L'' @ pt str (or0 cx) (or0 cy) (Some r0) a1 @
    arc str (or0 cx) (or0 cy) (largeArc a0 a1) (Some r0) a0 1 @ ''Z''"
  using assms by (simp add: pathAnnulus_def path_common_def toNumber_def Let_def)

lemma quarter_ring_digits:
  "pathAnnulus int_str 1 3 0 (pi / 2) (Some 0) (Some 0) =
   ''M1,0L3,0A3,3 0,0,0 0,-3L0,-1A1,1 0,0,1 1,0Z''"
  using pi_gt_zero
  by (simp add: pathAnnulus_sector [OF not_full_quarter] largeArc_quarter pt_def arc_def
      item_def flag_def or0_def toNumber_def int_str_values)

lemma ninety_radians_prefix:
  "\<exists>rest. pathAnnulus int_str 1 3 0 90 (Some 0) (Some 0) = ''M1,0L3,0A3,3 0,1,0 '' @ rest"
  by (simp add: pathAnnulus_sector [OF not_full_90] largeArc_90 pt_def arc_def item_def
      flag_def or0_def toNumber_def int_str_values)

lemma ninety_radians_differs:
  "pathAnnulus int_str 1 3 0 90 (Some 0) (Some 0) \<noteq>
   pathAnnulus int_str 1 3 0 (pi / 2) (Some 0) (Some 0)"
  using ninety_radians_prefix unfolding quarter_ring_digits by auto

lemma example_bar:
  assumes raw: "bar_p di = Fin 0" "bar_w di = Fin 90" "bar_b di = Fin 1" "bar_s di = Fin 2"
    and off: "poffset_at poffset i = Fin 0"
    and sp: "vangles sp = None" "radialAxis_c2p sp = (\<lambda>x. x)"
  shows "angularAxis_c2g sp = (\<lambda>x. x) \<Longrightarrow>
      snd (layout_bar (makePathFn str hp sp) sp poffset i di) =
      pathAnnulus str 1 3 0 90 (Some (cxx sp)) (Some (cyy sp))"
    and "angularAxis_c2g sp = c2g_degrees \<Longrightarrow>
      snd (layout_bar (makePathFn str hp sp) sp poffset i di) =
      pathAnnulus str 1 3 0 (pi / 2) (Some (cxx sp)) (Some (cyy sp))"
proof -
  assume "angularAxis_c2g sp = (\<lambda>x. x)"
  with raw off sp show "snd (layout_bar (makePathFn str hp sp) sp poffset i di) =
      pathAnnulus str 1 3 0 90 (Some (cxx sp)) (Some (cyy sp))"
    by (subst layout_bar_valid) (simp_all add: degenerate_def makePathFn_def)
next
  assume "angularAxis_c2g sp = c2g_degrees"
  with raw off sp show "snd (layout_bar (makePathFn str hp sp) sp poffset i di) =
      pathAnnulus str 1 3 0 (pi / 2) (Some (cxx sp)) (Some (cyy sp))"
    by (subst layout_bar_valid) (simp_all add: degenerate_def makePathFn_def deg2rad_def)
qed

text \<open>
  Claim C6, as stated, fails on its example. The path builder reads its angles as
  radians. With the identity as angular projection the bar of width 90 reaches it with
  the angles 0 and 90 radians: the arcs carry the large-arc flag 1, where a quarter ring,
  whose angles are 0 and \<open>pi / 2\<close>, has the flag 0, and the strings differ.
\<close>

theorem quarter_ring_counterexample:
  "\<forall>hp.
     bar_thetag0 (fst (layout_bar (makePathFn int_str hp subplot_id) subplot_id
       (Scalar (Fin 0)) 0 (bar_raw (Fin 0) (Fin 90) (Fin 1) (Fin 2)))) = Some (Fin 0) \<and>
     bar_thetag1 (fst (layout_bar (makePathFn int_str hp subplot_id) subplot_id
       (Scalar (Fin 0)) 0 (bar_raw (Fin 0) (Fin 90) (Fin 1) (Fin 2)))) = Some (Fin 90) \<and>
     snd (layout_bar (makePathFn int_str hp subplot_id) subplot_id
       (Scalar (Fin 0)) 0 (bar_raw (Fin 0) (Fin 90) (Fin 1) (Fin 2))) =
       pathAnnulus int_str 1 3 0 90 (Some 0) (Some 0) \<and>
     largeArc 0 90 = 1 \<and> largeArc 0 (pi / 2) = 0 \<and>
     snd (layout_bar (makePathFn int_str hp subplot_id) subplot_id
       (Scalar (Fin 0)) 0 (bar_raw (Fin 0) (Fin 90) (Fin 1) (Fin 2))) \<noteq>
       pathAnnulus int_str 1 3 0 (pi / 2) (Some 0) (Some 0)"
proof
  fix hp
  let ?L = "layout_bar (makePathFn int_str hp subplot_id) subplot_id
       (Scalar (Fin 0)) 0 (bar_raw (Fin 0) (Fin 90) (Fin 1) (Fin 2))"
  have t: "bar_thetag0 (fst ?L) = Some (Fin 0)" "bar_thetag1 (fst ?L) = Some (Fin 90)"
    by (simp_all add: layout_bar_derived bar_raw_def subplot_id_def poffset_at_def)
  have "snd ?L = pathAnnulus int_str 1 3 0 90 (Some (cxx subplot_id)) (Some (cyy subplot_id))"
    by (rule example_bar(1)) (simp_all add: bar_raw_def subplot_id_def poffset_at_def)
  then have p: "snd ?L = pathAnnulus int_str 1 3 0 90 (Some 0) (Some 0)"
    by (simp add: subplot_id_def)
  from t p largeArc_90 largeArc_quarter ninety_radians_differs
  show "bar_thetag0 (fst ?L) = Some (Fin 0) \<and> bar_thetag1 (fst ?L) = Some (Fin 90) \<and>
     snd ?L = pathAnnulus int_str 1 3 0 90 (Some 0) (Some 0) \<and>
     largeArc 0 90 = 1 \<and> largeArc 0 (pi / 2) = 0 \<and>
     snd ?L \<noteq> pathAnnulus int_str 1 3 0 (pi / 2) (Some 0) (Some 0)"
    by simp
qed

text \<open>
  Claim C6, amended. For every bar the layout computes \<open>p0 = p + poffset[i]\<close> (or
  \<open>p + poffset\<close> for a scalar offset), \<open>p1 = p0 + w\<close>, \<open>s0 = b\<close>, \<open>s1 = s0 + s\<close>, then \<open>rp0\<close>,
  \<open>rp1\<close> as the radial projection of \<open>s0\<close>, \<open>s1\<close> and \<open>thetag0\<close>, \<open>thetag1\<close> as the angular
  projection of \<open>p0\<close>, \<open>p1\<close>. For \<open>p = 0\<close>, \<open>w = 90\<close>, \<open>b = 1\<close>, \<open>s = 2\<close>, no offset, a circular
  grid and identity projections, the derived values are \<open>p0 = 0\<close>, \<open>p1 = 90\<close>, \<open>s0 = 1\<close>,
  \<open>s1 = 3\<close> and the path is \<open>pathAnnulus(1, 3, 0, 90, cxx, cyy)\<close>: the annulus sector from
  radius 1 to 3 between the angles 0 and 90 radians, with the large-arc flag 1. When the
  angular projection takes degrees to radians, \<open>thetag1\<close> is \<open>pi / 2\<close> and the path is the
  quarter ring \<open>pathAnnulus(1, 3, 0, pi / 2, cxx, cyy)\<close>, with the large-arc flag 0.
\<close>

theorem bar_extents:
  "poffset_at (Scalar v) i = v \<and>
   (i < length vs \<longrightarrow> poffset_at (PerBar vs) i = vs ! i) \<and>
   bar_p0 (fst (layout_bar pathFn sp poffset i di)) =
     Some (jadd (bar_p di) (poffset_at poffset i)) \<and>
   bar_p1 (fst (layout_bar pathFn sp poffset i di)) =
     Some (jadd (jadd (bar_p di) (poffset_at poffset i)) (bar_w di)) \<and>
   bar_s0 (fst (layout_bar pathFn sp poffset i di)) = Some (bar_b di) \<and>
   bar_s1 (fst (layout_bar pathFn sp poffset i di)) = Some (jadd (bar_b di) (bar_s di)) \<and>
   bar_rp0 (fst (layout_bar pathFn sp poffset i di)) =
     Some (radialAxis_c2p sp (bar_b di)) \<and>
   bar_rp1 (fst (layout_bar pathFn sp poffset i di)) =
     Some (radialAxis_c2p sp (jadd (bar_b di) (bar_s di))) \<and>
   bar_thetag0 (fst (layout_bar pathFn sp poffset i di)) =
     Some (angularAxis_c2g sp (jadd (bar_p di) (poffset_at poffset i))) \<and>
   bar_thetag1 (fst (layout_bar pathFn sp poffset i di)) =
     Some (angularAxis_c2g sp (jadd (jadd (bar_p di) (poffset_at poffset i)) (bar_w di))) \<and>
   (bar_p di = Fin 0 \<and> bar_w di = Fin 90 \<and> bar_b di = Fin 1 \<and> bar_s di = Fin 2 \<and>
    poffset_at poffset i = Fin 0 \<and> vangles sp = None \<and>
    radialAxis_c2p sp = (\<lambda>x. x) \<and> angularAxis_c2g sp = (\<lambda>x. x) \<longrightarrow>
      bar_p0 (fst (layout_bar (makePathFn str hp sp) sp poffset i di)) = Some (Fin 0) \<and>
      bar_p1 (fst (layout_bar (makePathFn str hp sp) sp poffset i di)) = Some (Fin 90) \<and>
      bar_s0 (fst (layout_bar (makePathFn str hp sp) sp poffset i di)) = Some (Fin 1) \<and>
      bar_s1 (fst (layout_bar (makePathFn str hp sp) sp poffset i di)) = Some (Fin 3) \<and>
      snd (layout_bar (makePathFn str hp sp) sp poffset i di) =
        pathAnnulus str 1 3 0 90 (Some (cxx sp)) (Some (cyy sp))) \<and>
   (bar_p di = Fin 0 \<and> bar_w di = Fin 90 \<and> bar_b di = Fin 1 \<and> bar_s di = Fin 2 \<and>
    poffset_at poffset i = Fin 0 \<and> vangles sp = None \<and>
    radialAxis_c2p sp = (\<lambda>x. x) \<and> angularAxis_c2g sp = c2g_degrees \<longrightarrow>
      bar_thetag1 (fst (layout_bar (makePathFn str hp sp) sp poffset i di)) =
        Some (Fin (pi / 2)) \<and>
      snd (layout_bar (makePathFn str hp sp) sp poffset i di) =
        pathAnnulus str 1 3 0 (pi / 2) (Some (cxx sp)) (Some (cyy sp))) \<and>
   pathAnnulus str 1 3 0 90 cx cy =
     ''M'' @ pt str (or0 cx) (or0 cy) (Some 1) 0 @
     ''L'' @ pt str (or0 cx) (or0 cy) (Some 3) 0 @
     arc str (or0 cx) (or0 cy) 1 (Some 3) 90 0 @
     ''L'' @ pt str (or0 cx) (or0 cy) (Some 1) 90 @
     arc str (or0 cx) (or0 cy) 1 (Some 1) 0 1 @ ''Z'' \<and>
   pathAnnulus str 1 3 0 (pi / 2) cx cy =
     ''M'' @ pt str (or0 cx) (or0 cy) (Some 1) 0 @
     ''L'' @ pt str (or0 cx) (or0 cy) (Some 3) 0 @
     arc str (or0 cx) (or0 cy) 0 (Some 3) (pi / 2) 0 @
     ''L'' @ pt str (or0 cx) (or0 cy) (Some 1) (pi / 2) @
     arc str (or0 cx) (or0 cy) 0 (Some 1) 0 1 @ ''Z''"
proof -
  have off: "poffset_at (Scalar v) i = v"
    "i < length vs \<longrightarrow> poffset_at (PerBar vs) i = vs ! i"
    by (simp_all add: poffset_at_def)
  have inst: "bar_p0 (fst (layout_bar (makePathFn str hp sp) sp poffset i di)) = Some (Fin 0) \<and>
      bar_p1 (fst (layout_bar (makePathFn str hp sp) sp poffset i di)) = Some (Fin 90) \<and>
      bar_s0 (fst (layout_bar (makePathFn str hp sp) sp poffset i di)) = Some (Fin 1) \<and>
      bar_s1 (fst (layout_bar (makePathFn str hp sp) sp poffset i di)) = Some (Fin 3) \<and>
      snd (layout_bar (makePathFn str hp sp) sp poffset i di) =
        pathAnnulus str 1 3 0 90 (Some (cxx sp)) (Some (cyy sp))"
    if "bar_p di = Fin 0 \<and> bar_w di = Fin 90 \<and> bar_b di = Fin 1 \<and> bar_s di = Fin 2 \<and>
      poffset_at poffset i = Fin 0 \<and> vangles sp = None \<and>
      radialAxis_c2p sp = (\<lambda>x. x) \<and> angularAxis_c2g sp = (\<lambda>x. x)"
    using that example_bar(1) [of di poffset i sp str hp]
    by (simp add: layout_bar_derived)
  have deg: "bar_thetag1 (fst (layout_bar (makePathFn str hp sp) sp poffset i di)) =
        Some (Fin (pi / 2)) \<and>
      snd (layout_bar (makePathFn str hp sp) sp poffset i di) =
        pathAnnulus str 1 3 0 (pi / 2) (Some (cxx sp)) (Some (cyy sp))"
    if "bar_p di = Fin 0 \<and> bar_w di = Fin 90 \<and> bar_b di = Fin 1 \<and> bar_s di = Fin 2 \<and>
      poffset_at poffset i = Fin 0 \<and> vangles sp = None \<and>
      radialAxis_c2p sp = (\<lambda>x. x) \<and> angularAxis_c2g sp = c2g_degrees"
    using that example_bar(2) [of di poffset i sp str hp]
    by (simp add: layout_bar_derived deg2rad_def)
  have s90: "pathAnnulus str 1 3 0 90 cx cy =
     ''M'' @ pt str (or0 cx) (or0 cy) (Some 1) 0 @
     ''L'' @ pt str (or0 cx) (or0 cy) (Some 3) 0 @
     arc str (or0 cx) (or0 cy) 1 (Some 3) 90 0 @
     ''L'' @ pt str (or0 cx) (or0 cy) (Some 1) 90 @
     arc str (or0 cx) (or0 cy) 1 (Some 1) 0 1 @ ''Z''"
    using pathAnnulus_sector [OF not_full_90, of 1 3 str cx cy]
    by (simp add: largeArc_90)
  have sq: "pathAnnulus str 1 3 0 (pi / 2) cx cy =
     ''M'' @ pt str (or0 cx) (or0 cy) (Some 1) 0 @
     ''L'' @ pt str (or0 cx) (or0 cy) (Some 3) 0 @
     arc str (or0 cx) (or0 cy) 0 (Some 3) (pi / 2) 0 @
     ''L'' @ pt str (or0 cx) (or0 cy) (Some 1) (pi / 2) @
     arc str (or0 cx) (or0 cy) 0 (Some 1) 0 1 @ ''Z''"
    using pathAnnulus_sector [OF not_full_quarter, of 1 3 str cx cy] pi_gt_zero
    by (simp add: largeArc_quarter)
  show ?thesis
    apply (intro conjI)
                apply (rule off(1))
               apply (rule off(2))
              apply (rule layout_bar_derived)+
      apply (rule impI, erule inst)
     apply (rule impI, erule deg)
    apply (rule s90)
    apply (rule sq)
    done
qed

theorem bar_extents_witness:
  "\<forall>hp.
     (0 :: nat) < length [Fin 0] \<and>
     poffset_at (PerBar [Fin 0]) 0 = Fin 0 \<and>
     vangles subplot_id = None \<and>
     radialAxis_c2p subplot_id = (\<lambda>x. x) \<and>
     angularAxis_c2g subplot_id = (\<lambda>x. x) \<and>
     bar_s1 (fst (layout_bar (makePathFn int_str hp subplot_id) subplot_id (PerBar [Fin 0]) 0
       (bar_raw (Fin 0) (Fin 90) (Fin 1) (Fin 2)))) = Some (Fin 3) \<and>
     snd (layout_bar (makePathFn int_str hp subplot_id) subplot_id (PerBar [Fin 0]) 0
       (bar_raw (Fin 0) (Fin 90) (Fin 1) (Fin 2))) =
       pathAnnulus int_str 1 3 0 90 (Some 0) (Some 0) \<and>
     angularAxis_c2g (subplot_id\<lparr>angularAxis_c2g := c2g_degrees\<rparr>) = c2g_degrees \<and>
     snd (layout_bar (makePathFn int_str hp (subplot_id\<lparr>angularAxis_c2g := c2g_degrees\<rparr>))
       (subplot_id\<lparr>angularAxis_c2g := c2g_degrees\<rparr>) (PerBar [Fin 0]) 0
       (bar_raw (Fin 0) (Fin 90) (Fin 1) (Fin 2))) =
       ''M1,0L3,0A3,3 0,0,0 0,-3L0,-1A1,1 0,0,1 1,0Z''"
proof
  fix hp
  let ?di = "bar_raw (Fin 0) (Fin 90) (Fin 1) (Fin 2)"
  let ?po = "PerBar [Fin 0]"
  let ?sd = "subplot_id\<lparr>angularAxis_c2g := c2g_degrees\<rparr>"
  have len: "(0 :: nat) < length [Fin 0]" by simp
  have raw: "bar_p ?di = Fin 0 \<and> bar_w ?di = Fin 90 \<and> bar_b ?di = Fin 1 \<and> bar_s ?di = Fin 2"
    by (simp add: bar_raw_def)
  have sp: "vangles subplot_id = None" "radialAxis_c2p subplot_id = (\<lambda>x. x)"
    "angularAxis_c2g subplot_id = (\<lambda>x. x)"
    by (simp_all add: subplot_id_def)
  have sd: "vangles ?sd = None" "radialAxis_c2p ?sd = (\<lambda>x. x)"
    "angularAxis_c2g ?sd = c2g_degrees" "cxx ?sd = 0" "cyy ?sd = 0"
    by (simp_all add: subplot_id_def)
  note T1 = bar_extents [where i = 0 and vs = "[Fin 0]" and sp = subplot_id and
      poffset = ?po and di = ?di and str = int_str and hp = hp]
  note T2 = bar_extents [where i = 0 and vs = "[Fin 0]" and sp = ?sd and
      poffset = ?po and di = ?di and str = int_str and hp = hp]
  from T1 len have off: "poffset_at ?po 0 = Fin 0" by simp
  from T1 raw off sp
  have 1: "bar_s1 (fst (layout_bar (makePathFn int_str hp subplot_id) subplot_id ?po 0 ?di)) =
      Some (Fin 3) \<and>
    snd (layout_bar (makePathFn int_str hp subplot_id) subplot_id ?po 0 ?di) =
      pathAnnulus int_str 1 3 0 90 (Some (cxx subplot_id)) (Some (cyy subplot_id))"
    by blast
  from T2 raw off sd(1-3)
  have "snd (layout_bar (makePathFn int_str hp ?sd) ?sd ?po 0 ?di) =
      pathAnnulus int_str 1 3 0 (pi / 2) (Some (cxx ?sd)) (Some (cyy ?sd))"
    by blast
  then have 2: "snd (layout_bar (makePathFn int_str hp ?sd) ?sd ?po 0 ?di) =
      ''M1,0L3,0A3,3 0,0,0 0,-3L0,-1A1,1 0,0,1 1,0Z''"
    unfolding sd(4,5) quarter_ring_digits .
  have c: "cxx subplot_id = 0" "cyy subplot_id = 0" by (simp_all add: subplot_id_def)
  from len off sp 1 sd(3) 2
  show "(0 :: nat) < length [Fin 0] \<and>
     poffset_at ?po 0 = Fin 0 \<and>
     vangles subplot_id = None \<and>
     radialAxis_c2p subplot_id = (\<lambda>x. x) \<and>
     angularAxis_c2g subplot_id = (\<lambda>x. x) \<and>
     bar_s1 (fst (layout_bar (makePathFn int_str hp subplot_id) subplot_id ?po 0 ?di)) =
       Some (Fin 3) \<and>
     snd (layout_bar (makePathFn int_str hp subplot_id) subplot_id ?po 0 ?di) =
       pathAnnulus int_str 1 3 0 90 (Some 0) (Some 0) \<and>
     angularAxis_c2g ?sd = c2g_degrees \<and>
     snd (layout_bar (makePathFn int_str hp ?sd) ?sd ?po 0 ?di) =
       ''M1,0L3,0A3,3 0,0,0 0,-3L0,-1A1,1 0,0,1 1,0Z''"
    unfolding c by blast
qed

end
